theory Spec2Isabelle
  imports Main
begin

section \<open>Exceptions and values\<close>

text \<open>
  The exceptions that the functions of \<^verbatim>\<open>bot.py\<close> can raise or meet.
  \<open>InvalidTokenException\<close> is what twitchio's \<^verbatim>\<open>add_token\<close> raises for a token
  pair that the identity service rejects; \<open>ProgrammingError\<close> is sqlite3's
  "You can only execute one statement at a time." (a \<^verbatim>\<open>sqlite3.Warning\<close> before
  Python 3.12; either way a subclass of \<^verbatim>\<open>Exception\<close>); \<open>NameError\<close> and
  \<open>IndexError\<close> are Python's own; \<open>CommandNotFound\<close>, \<open>GuardFailure\<close> and
  \<open>MissingRequiredArgument\<close> are raised by the command framework around a handler.
\<close>

datatype error =
    InvalidTokenException
  | ProgrammingError
  | NameError
  | IndexError
  | CommandNotFound
  | GuardFailure
  | MissingRequiredArgument

text \<open>A chat message going out: \<^verbatim>\<open>ctx.reply(text)\<close> or \<^verbatim>\<open>ctx.send(text)\<close>.\<close>

datatype outgoing = Reply string | Send string

section \<open>The two SQLite tables\<close>

text \<open>
  \<^verbatim>\<open>tokens(user_id TEXT PRIMARY KEY, token TEXT NOT NULL, refresh TEXT NOT NULL)\<close> and
  \<^verbatim>\<open>responses(command TEXT PRIMARY KEY, response TEXT NOT NULL)\<close>.
  A table is the list of its rows in the order \<^verbatim>\<open>SELECT *\<close> returns them (rowid
  order: a new row goes to the end, an updated row keeps its place). The
  primary key makes the first components distinct; the functions below do not
  assume it, the theorems that need it say so.
\<close>

type_synonym token_row = "string \<times> string \<times> string"
type_synonym response_row = "string \<times> string"

text \<open>
  The statement of \<^verbatim>\<open>add_token\<close>:
  \<^verbatim>\<open>INSERT INTO tokens (user_id, token, refresh) VALUES (?, ?, ?)
  ON CONFLICT(user_id) DO UPDATE SET token = excluded.token, refresh = excluded.refresh;\<close>
  A row with the same \<open>user_id\<close> gets the new token and refresh; otherwise the
  row is inserted.
\<close>

primrec upsert_token :: "token_row \<Rightarrow> token_row list \<Rightarrow> token_row list" where
  "upsert_token new [] = [new]"
| "upsert_token new (row # rows) =
     (if fst row = fst new then (fst row, snd new) # rows
      else row # upsert_token new rows)"

text \<open>
  The first statement of \<^verbatim>\<open>add_response\<close>, which ends at the first semicolon:
  \<^verbatim>\<open>INSERT INTO responses (command, response) VALUES (?, ?)
  ON CONFLICT(command) DO UPDATE SET command = excluded.command;\<close>
  A row with the same \<open>command\<close> gets its command column set again and keeps its
  response; otherwise the row is inserted.
\<close>

primrec insert_response :: "response_row \<Rightarrow> response_row list \<Rightarrow> response_row list" where
  "insert_response new [] = [new]"
| "insert_response new (row # rows) =
     (if fst row = fst new then (fst new, snd row) # rows
      else row # insert_response new rows)"

section \<open>The query texts and \<^verbatim>\<open>connection.execute\<close>\<close>

text \<open>
  The two query strings, character by character as in the source (triple-quoted,
  so each starts and ends with a line break and keeps the indentation).
\<close>

definition nl :: string where
  "nl = [CHR 0x0A]"

definition TOKENS_QUERY :: string where
  "TOKENS_QUERY = concat
     [nl,
      ''        INSERT INTO tokens (user_id, token, refresh)'', nl,
      ''        VALUES (?, ?, ?)'', nl,
      ''        ON CONFLICT(user_id)'', nl,
      ''        DO UPDATE SET'', nl,
      ''            token = excluded.token,'', nl,
      ''            refresh = excluded.refresh;'', nl,
      ''        '']"

definition RESPONSES_QUERY :: string where
  "RESPONSES_QUERY = concat
     [nl,
      ''        INSERT INTO responses (command, response)'', nl,
      ''        VALUES (?, ?)'', nl,
      ''        ON CONFLICT(command)'', nl,
      ''        DO UPDATE SET'', nl,
      ''            command = excluded.command;'', nl,
      ''            response = excluded.response;'', nl,
      ''        '']"

text \<open>
  \<^verbatim>\<open>connection.execute(sql, params)\<close> of asqlite hands the text to Python's sqlite3,
  which compiles the first statement (up to the first semicolon; neither query
  has a quote or a comment that could hide one) and refuses the call, before
  running anything, when something other than white space follows it.
  \<open>sql_tail\<close> is the text after the first statement, \<open>remaining_sql\<close> the test.
\<close>

definition sql_tail :: "string \<Rightarrow> string" where
  "sql_tail sql = (case dropWhile (\<lambda>c. c \<noteq> CHR '';'') sql of [] \<Rightarrow> [] | _ # rest \<Rightarrow> rest)"

definition is_space :: "char \<Rightarrow> bool" where
  "is_space c = (c = CHR '' '' \<or> c = CHR 0x09 \<or> c = CHR 0x0A \<or> c = CHR 0x0C \<or> c = CHR 0x0D)"

definition remaining_sql :: "string \<Rightarrow> bool" where
  "remaining_sql sql = (filter (\<lambda>c. \<not> is_space c) (sql_tail sql) \<noteq> [])"

text \<open>
  \<open>execute sql stmt db\<close>: \<open>stmt\<close> is what the first statement of \<open>sql\<close> does to the
  table, with the parameters already bound.
\<close>

definition execute :: "string \<Rightarrow> ('db \<Rightarrow> 'db) \<Rightarrow> 'db \<Rightarrow> error + 'db" where
  "execute sql stmt db = (if remaining_sql sql then Inl ProgrammingError else Inr (stmt db))"

text \<open>
  For comparison, a driver that runs the first statement and does not look at
  the rest of the text.
\<close>

definition first_statement_only :: "string \<Rightarrow> ('db \<Rightarrow> 'db) \<Rightarrow> 'db \<Rightarrow> error + 'db" where
  "first_statement_only sql stmt db = Inr (stmt db)"

section \<open>The bot\<close>

text \<open>
  The state the functions act on: the two databases of \<^verbatim>\<open>Bot.__init__\<close>, the
  tokens that twitchio's client holds in memory (written by \<^verbatim>\<open>super().add_token\<close>;
  a user is registered when it has an entry; which pair the library keeps there
  is its own business, and the theorems below read the domain only), and the
  chat messages sent so far. asqlite opens its connections in autocommit mode,
  so a statement that \<^verbatim>\<open>execute\<close> has run is in the table. Logging and the
  \<^verbatim>\<open>print\<close> of the listener \<^verbatim>\<open>MyComponent.event_message\<close> are left out: they
  change none of these and do not raise.
\<close>

record bot =
  token_database :: "token_row list"
  responses_database :: "response_row list"
  managed_tokens :: "string \<rightharpoonup> string \<times> string"
  chat :: "outgoing list"

text \<open>
  \<^verbatim>\<open>super().add_token(token, refresh)\<close> of the library: the identity service
  validates the pair and names its user, or the call raises. The service is the
  parameter \<open>validate\<close>. The validated payload is reduced to its \<open>user_id\<close>, the
  only field \<^verbatim>\<open>bot.py\<close> reads.
\<close>

definition super_add_token ::
  "(string \<Rightarrow> string \<Rightarrow> string option) \<Rightarrow> bot \<Rightarrow> string \<Rightarrow> string \<Rightarrow> (error + string) \<times> bot" where
  "super_add_token validate b token refresh =
     (case validate token refresh of
        None \<Rightarrow> (Inl InvalidTokenException, b)
      | Some user_id \<Rightarrow>
          (Inr user_id, b\<lparr>managed_tokens := (managed_tokens b)(user_id \<mapsto> (token, refresh))\<rparr>))"

definition add_token ::
  "(string \<Rightarrow> string \<Rightarrow> string option) \<Rightarrow> bot \<Rightarrow> string \<Rightarrow> string \<Rightarrow> (error + string) \<times> bot" where
  "add_token validate b token refresh =
     (case super_add_token validate b token refresh of
        (Inl e, b1) \<Rightarrow> (Inl e, b1)
      | (Inr resp, b1) \<Rightarrow>
          (case execute TOKENS_QUERY (upsert_token (resp, token, refresh)) (token_database b1) of
             Inl e \<Rightarrow> (Inl e, b1)
           | Inr db \<Rightarrow> (Inr resp, b1\<lparr>token_database := db\<rparr>)))"

text \<open>The loop of \<^verbatim>\<open>load_tokens\<close> over the fetched rows: an exception leaves it.\<close>

fun add_token_rows ::
  "(string \<Rightarrow> string \<Rightarrow> string option) \<Rightarrow> bot \<Rightarrow> token_row list \<Rightarrow> (error + unit) \<times> bot" where
  "add_token_rows validate b [] = (Inr (), b)"
| "add_token_rows validate b (row # rows) =
     (case add_token validate b (fst (snd row)) (snd (snd row)) of
        (Inl e, b1) \<Rightarrow> (Inl e, b1)
      | (Inr resp, b1) \<Rightarrow> add_token_rows validate b1 rows)"

definition load_tokens ::
  "(string \<Rightarrow> string \<Rightarrow> string option) \<Rightarrow> bot \<Rightarrow> (error + unit) \<times> bot" where
  "load_tokens validate b = add_token_rows validate b (token_database b)"

text \<open>
  \<^verbatim>\<open>add_response\<close>: the execute, then \<^verbatim>\<open>return resp\<close> with no \<open>resp\<close> in scope,
  a \<open>NameError\<close>. \<open>add_response_via\<close> takes the database driver as a parameter;
  \<open>add_response\<close> is the function with the driver above.
\<close>

definition add_response_via ::
  "(string \<Rightarrow> (response_row list \<Rightarrow> response_row list) \<Rightarrow> response_row list \<Rightarrow> error + response_row list)
     \<Rightarrow> bot \<Rightarrow> string \<Rightarrow> string \<Rightarrow> (error + unit) \<times> bot" where
  "add_response_via exec b command response =
     (case exec RESPONSES_QUERY (insert_response (command, response)) (responses_database b) of
        Inl e \<Rightarrow> (Inl e, b)
      | Inr db \<Rightarrow> (Inl NameError, b\<lparr>responses_database := db\<rparr>))"

definition add_response :: "bot \<Rightarrow> string \<Rightarrow> string \<Rightarrow> (error + unit) \<times> bot" where
  "add_response = add_response_via execute"

fun add_response_rows :: "bot \<Rightarrow> response_row list \<Rightarrow> (error + unit) \<times> bot" where
  "add_response_rows b [] = (Inr (), b)"
| "add_response_rows b (row # rows) =
     (case add_response b (fst row) (snd row) of
        (Inl e, b1) \<Rightarrow> (Inl e, b1)
      | (Inr u, b1) \<Rightarrow> add_response_rows b1 rows)"

definition load_responses :: "bot \<Rightarrow> (error + unit) \<times> bot" where
  "load_responses b = add_response_rows b (responses_database b)"

section \<open>The commands of \<^verbatim>\<open>MyComponent\<close>\<close>

text \<open>
  What the program reads of a chatter: the id, the mention, and the three
  badges that the framework's \<^verbatim>\<open>is_elevated\<close> guard looks at.
\<close>

record chatter =
  chatter_id :: string
  mention :: string
  chatter_broadcaster :: bool
  chatter_moderator :: bool
  chatter_vip :: bool

text \<open>
  The guard on \<^verbatim>\<open>addcommand\<close>: \<^verbatim>\<open>commands.is_elevated()\<close> lets moderators, VIPs
  and the broadcaster pass.
\<close>

definition is_elevated :: "chatter \<Rightarrow> bool" where
  "is_elevated who = (chatter_moderator who \<or> chatter_vip who \<or> chatter_broadcaster who)"

text \<open>Python's \<^verbatim>\<open>content.split(' ', 1)\<close>: at most one split, at the first space.\<close>

definition split1 :: "string \<Rightarrow> string list" where
  "split1 s =
     (case dropWhile (\<lambda>c. c \<noteq> CHR '' '') s of
        [] \<Rightarrow> [s]
      | _ # rest \<Rightarrow> [takeWhile (\<lambda>c. c \<noteq> CHR '' '') s, rest])"

text \<open>Python's \<^verbatim>\<open>xs[i]\<close> for a list and an index that is not negative.\<close>

definition item :: "'a list \<Rightarrow> nat \<Rightarrow> error + 'a" where
  "item xs i = (if i < length xs then Inr (xs ! i) else Inl IndexError)"

definition hi :: "bot \<Rightarrow> chatter \<Rightarrow> (error + unit) \<times> bot" where
  "hi b who = (Inr (), b\<lparr>chat := chat b @ [Reply (''Hello '' @ mention who @ ''!'')]\<rparr>)"

definition socials :: "bot \<Rightarrow> (error + unit) \<times> bot" where
  "socials b = (Inr (), b\<lparr>chat := chat b @ [Send ''https://bsky.app/profile/tcurls.net'']\<rparr>)"

text \<open>
  The body of \<^verbatim>\<open>addcommand\<close>. The two index reads stand before the \<^verbatim>\<open>try\<close>, so
  their \<open>IndexError\<close> leaves the handler; an exception of \<^verbatim>\<open>add_response\<close> is
  caught and answered with the failure message. As for \<open>add_response_via\<close>, the
  database driver is a parameter of \<open>addcommand_via\<close>.
\<close>

definition addcommand_via ::
  "(string \<Rightarrow> (response_row list \<Rightarrow> response_row list) \<Rightarrow> response_row list \<Rightarrow> error + response_row list)
     \<Rightarrow> bot \<Rightarrow> string \<Rightarrow> (error + unit) \<times> bot" where
  "addcommand_via exec b content =
     (let content_array = split1 content in
      case item content_array 0 of
        Inl e \<Rightarrow> (Inl e, b)
      | Inr command \<Rightarrow>
          (case item content_array 1 of
             Inl e \<Rightarrow> (Inl e, b)
           | Inr response \<Rightarrow>
               (case add_response_via exec b command response of
                  (Inl e, b1) \<Rightarrow> (Inr (), b1\<lparr>chat := chat b1 @ [Send ''Failed to add command! :('']\<rparr>)
                | (Inr u, b1) \<Rightarrow> (Inr (), b1))))"

definition addcommand :: "bot \<Rightarrow> string \<Rightarrow> (error + unit) \<times> bot" where
  "addcommand = addcommand_via execute"

text \<open>
  The command table that the decorators build: \<^verbatim>\<open>hi\<close> with its aliases,
  \<^verbatim>\<open>socials\<close>, \<^verbatim>\<open>addcommand\<close>. Names are matched as they are written.
\<close>

datatype command = Hi | Socials | Addcommand

definition get_command :: "string \<Rightarrow> command option" where
  "get_command name =
     (if name = ''hi'' \<or> name = ''hello'' \<or> name = ''howdy'' \<or> name = ''hey'' then Some Hi
      else if name = ''socials'' then Some Socials
      else if name = ''addcommand'' then Some Addcommand
      else None)"

text \<open>
  A command \<^verbatim>\<open>!name rest\<close> from \<open>who\<close>, already split into the command name and
  the rest of the line. The framework looks the name up in the command table
  and raises \<open>CommandNotFound\<close> when it is not there; it runs the guard of
  \<^verbatim>\<open>addcommand\<close> and raises \<open>GuardFailure\<close> when it fails; it binds the rest of
  the line to \<^verbatim>\<open>content\<close>, which has no default, and raises
  \<open>MissingRequiredArgument\<close> when nothing is left. The framework reports these
  exceptions, and those of a handler, to \<^verbatim>\<open>event_command_error\<close>, which
  \<^verbatim>\<open>bot.py\<close> does not override: it logs them and sends nothing. The result
  shows the exception as it was raised.
\<close>

definition invoke :: "bot \<Rightarrow> chatter \<Rightarrow> string \<Rightarrow> string \<Rightarrow> (error + unit) \<times> bot" where
  "invoke b who name rest =
     (case get_command name of
        None \<Rightarrow> (Inl CommandNotFound, b)
      | Some Hi \<Rightarrow> hi b who
      | Some Socials \<Rightarrow> socials b
      | Some Addcommand \<Rightarrow>
          (if \<not> is_elevated who then (Inl GuardFailure, b)
           else if rest = [] then (Inl MissingRequiredArgument, b)
           else addcommand b rest))"

text \<open>
  An inbound chat message that invokes a command: its chatter, the broadcaster
  it comes from when it arrives through shared chat (\<open>None\<close> for a message of
  the channel itself), and the command as above.
\<close>

record chat_message =
  from_chatter :: chatter
  source_broadcaster :: "string option"
  command_name :: string
  remainder :: string

text \<open>
  \<^verbatim>\<open>event_message\<close> of \<^verbatim>\<open>commands.Bot\<close>, which \<^verbatim>\<open>Bot\<close> inherits and does not
  override: a message of the bot's own account and a message from shared chat
  are dropped before any command is looked up; every other message goes on to
  the commands. \<open>BOT_ID\<close> is \<^verbatim>\<open>config.BOT_ID\<close>, which \<^verbatim>\<open>Bot.__init__\<close> hands to
  the framework as \<^verbatim>\<open>bot_id\<close>.
\<close>

definition event_message :: "string \<Rightarrow> bot \<Rightarrow> chat_message \<Rightarrow> (error + unit) \<times> bot" where
  "event_message BOT_ID b payload =
     (if chatter_id (from_chatter payload) = BOT_ID then (Inr (), b)
      else if source_broadcaster payload \<noteq> None then (Inr (), b)
      else invoke b (from_chatter payload) (command_name payload) (remainder payload))"

section \<open>Sample inputs\<close>

text \<open>
  A bot with empty tables, an identity service that knows three access tokens
  (two of user \<open>1\<close>, one of user \<open>2\<close>) and rejects every other, a moderator, a
  VIP and a viewer, and a command sent in the channel itself.
\<close>

definition fresh_bot :: bot where
  "fresh_bot = \<lparr>token_database = [], responses_database = [], managed_tokens = Map.empty, chat = []\<rparr>"

definition sample_validate :: "string \<Rightarrow> string \<Rightarrow> string option" where
  "sample_validate token refresh = map_of [(''tokA'', ''1''), (''tokA2'', ''1''), (''tokB'', ''2'')] token"

definition moderator :: chatter where
  "moderator = \<lparr>chatter_id = ''100'', mention = ''@mod'', chatter_broadcaster = False,
     chatter_moderator = True, chatter_vip = False\<rparr>"

definition regular_vip :: chatter where
  "regular_vip = \<lparr>chatter_id = ''300'', mention = ''@vip'', chatter_broadcaster = False,
     chatter_moderator = False, chatter_vip = True\<rparr>"

definition viewer :: chatter where
  "viewer = \<lparr>chatter_id = ''200'', mention = ''@viewer'', chatter_broadcaster = False,
     chatter_moderator = False, chatter_vip = False\<rparr>"

definition channel_message :: "chatter \<Rightarrow> string \<Rightarrow> string \<Rightarrow> chat_message" where
  "channel_message who name rest =
     \<lparr>from_chatter = who, source_broadcaster = None, command_name = name, remainder = rest\<rparr>"

section \<open>The query texts under the driver's test\<close>

lemma TOKENS_QUERY_one_statement: "\<not> remaining_sql TOKENS_QUERY"
  by (simp add: remaining_sql_def sql_tail_def TOKENS_QUERY_def nl_def is_space_def)

lemma RESPONSES_QUERY_two_statements: "remaining_sql RESPONSES_QUERY"
  by (simp add: remaining_sql_def sql_tail_def RESPONSES_QUERY_def nl_def is_space_def)

lemma execute_TOKENS_QUERY: "execute TOKENS_QUERY stmt db = Inr (stmt db)"
  by (simp add: execute_def TOKENS_QUERY_one_statement)

lemma execute_RESPONSES_QUERY: "execute RESPONSES_QUERY stmt db = Inl ProgrammingError"
  by (simp add: execute_def RESPONSES_QUERY_two_statements)

section \<open>Credentials: \<^verbatim>\<open>add_token\<close>\<close>

lemma add_token_rejected:
  "validate token refresh = None \<Longrightarrow>
   add_token validate b token refresh = (Inl InvalidTokenException, b)"
  by (simp add: add_token_def super_add_token_def)

lemma add_token_accepted:
  "validate token refresh = Some user_id \<Longrightarrow>
   add_token validate b token refresh =
     (Inr user_id,
      b\<lparr>managed_tokens := (managed_tokens b)(user_id \<mapsto> (token, refresh)),
        token_database := upsert_token (user_id, token, refresh) (token_database b)\<rparr>)"
  by (simp add: add_token_def super_add_token_def execute_TOKENS_QUERY)

lemma keys_upsert_token:
  "fst ` set (upsert_token new rows) = insert (fst new) (fst ` set rows)"
  by (induction rows) auto

lemma distinct_upsert_token:
  "distinct (map fst rows) \<Longrightarrow> distinct (map fst (upsert_token new rows))"
proof (induction rows)
  case Nil
  show ?case by simp
next
  case (Cons row rows)
  show ?case
  proof (cases "fst row = fst new")
    case True
    with Cons.prems show ?thesis by simp
  next
    case False
    with Cons show ?thesis by (simp add: keys_upsert_token)
  qed
qed

lemma filter_upsert_token:
  "distinct (map fst rows) \<Longrightarrow>
   filter (\<lambda>row. fst row = fst new) (upsert_token new rows) = [new]"
proof (induction rows)
  case Nil
  show ?case by simp
next
  case (Cons row rows)
  show ?case
  proof (cases "fst row = fst new")
    case True
    with Cons.prems have "fst new \<notin> fst ` set rows" by simp
    have "filter (\<lambda>r. fst r = fst new) rows = []"
      unfolding filter_empty_conv
    proof
      fix r
      assume "r \<in> set rows"
      then have "fst r \<in> fst ` set rows" by (rule imageI)
      with \<open>fst new \<notin> fst ` set rows\<close> show "fst r \<noteq> fst new" by metis
    qed
    with True show ?thesis by (simp add: prod_eq_iff)
  next
    case False
    with Cons show ?thesis by simp
  qed
qed

lemma upsert_token_same:
  "distinct (map fst rows) \<Longrightarrow> row \<in> set rows \<Longrightarrow> upsert_token row rows = rows"
proof (induction rows)
  case Nil
  then show ?case by simp
next
  case (Cons x rows)
  show ?case
  proof (cases "row = x")
    case True
    then show ?thesis by simp
  next
    case False
    with Cons.prems have mem: "row \<in> set rows" by simp
    with Cons.prems have "fst x \<noteq> fst row" by force
    with Cons mem show ?thesis by simp
  qed
qed

text \<open>
  C6. A token pair that the identity service rejects: \<^verbatim>\<open>add_token\<close> raises the
  validation error and persists nothing. The tokens table is as before, and so
  is the rest of the state.
\<close>

theorem add_token_rejected_persists_nothing:
  assumes "validate token refresh = None"
  shows "fst (add_token validate b token refresh) = Inl InvalidTokenException
       \<and> token_database (snd (add_token validate b token refresh)) = token_database b
       \<and> snd (add_token validate b token refresh) = b"
  using assms by (simp add: add_token_rejected)

theorem add_token_rejected_persists_nothing_witness:
  "sample_validate ''revoked'' ''r0'' = None
   \<and> fst (add_token sample_validate (fresh_bot\<lparr>token_database := [(''1'', ''tokA'', ''rA'')]\<rparr>)
        ''revoked'' ''r0'') = Inl InvalidTokenException
   \<and> token_database (snd (add_token sample_validate
        (fresh_bot\<lparr>token_database := [(''1'', ''tokA'', ''rA'')]\<rparr>) ''revoked'' ''r0''))
       = [(''1'', ''tokA'', ''rA'')]"
proof -
  have h: "sample_validate ''revoked'' ''r0'' = None"
    by (simp add: sample_validate_def)
  show ?thesis
    using h add_token_rejected_persists_nothing [of sample_validate "''revoked''" "''r0''"
        "fresh_bot\<lparr>token_database := [(''1'', ''tokA'', ''rA'')]\<rparr>"]
    by (simp add: fresh_bot_def)
qed

text \<open>
  C5. Two calls of \<^verbatim>\<open>add_token\<close> whose pairs both validate to the same user: both
  return that user, and the tokens table (its keys distinct, as the primary key
  has them) then holds exactly one row for the user, with the access and refresh
  token of the second call. The identity service may answer the two calls
  differently, so each call has its own.
\<close>

theorem add_token_twice_last_write_wins:
  assumes "distinct (map fst (token_database b))"
    and "validate1 token1 refresh1 = Some user_id"
    and "validate2 token2 refresh2 = Some user_id"
  shows "fst (add_token validate1 b token1 refresh1) = Inr user_id
       \<and> fst (add_token validate2 (snd (add_token validate1 b token1 refresh1)) token2 refresh2)
           = Inr user_id
       \<and> filter (\<lambda>row. fst row = user_id)
           (token_database
              (snd (add_token validate2 (snd (add_token validate1 b token1 refresh1)) token2 refresh2)))
           = [(user_id, token2, refresh2)]"
proof -
  let ?db1 = "upsert_token (user_id, token1, refresh1) (token_database b)"
  have d1: "distinct (map fst ?db1)"
    using assms(1) by (rule distinct_upsert_token)
  have "filter (\<lambda>row. fst row = fst (user_id, token2, refresh2))
          (upsert_token (user_id, token2, refresh2) ?db1) = [(user_id, token2, refresh2)]"
    using d1 by (rule filter_upsert_token)
  then show ?thesis
    using assms(2,3) by (simp add: add_token_accepted)
qed

theorem add_token_twice_last_write_wins_witness:
  "distinct (map fst [(''2'', ''tokB'', ''rB''), (''1'', ''old'', ''rOld'')])
   \<and> sample_validate ''tokA'' ''rA'' = Some ''1''
   \<and> sample_validate ''tokA2'' ''rA2'' = Some ''1''
   \<and> token_database
        (snd (add_token sample_validate
           (snd (add_token sample_validate
              (fresh_bot\<lparr>token_database := [(''2'', ''tokB'', ''rB''), (''1'', ''old'', ''rOld'')]\<rparr>)
              ''tokA'' ''rA''))
           ''tokA2'' ''rA2''))
       = [(''2'', ''tokB'', ''rB''), (''1'', ''tokA2'', ''rA2'')]"
proof -
  let ?b = "fresh_bot\<lparr>token_database := [(''2'', ''tokB'', ''rB''), (''1'', ''old'', ''rOld'')]\<rparr>"
  have d: "distinct (map fst (token_database ?b))" by simp
  have v1: "sample_validate ''tokA'' ''rA'' = Some ''1''" by (simp add: sample_validate_def)
  have v2: "sample_validate ''tokA2'' ''rA2'' = Some ''1''" by (simp add: sample_validate_def)
  show ?thesis
    using add_token_twice_last_write_wins [of ?b sample_validate "''tokA''" "''rA''" "''1''"
        sample_validate "''tokA2''" "''rA2''"] d v1 v2
    by (simp add: add_token_accepted)
qed

section \<open>Credentials: \<^verbatim>\<open>load_tokens\<close>\<close>

lemma add_token_rows_append:
  "add_token_rows validate b (xs @ ys) =
     (case add_token_rows validate b xs of
        (Inl e, b1) \<Rightarrow> (Inl e, b1)
      | (Inr u, b1) \<Rightarrow> add_token_rows validate b1 ys)"
proof (induction xs arbitrary: b)
  case Nil
  show ?case by simp
next
  case (Cons row xs)
  show ?case
    by (cases "add_token validate b (fst (snd row)) (snd (snd row))")
       (simp add: Cons.IH split: sum.splits)
qed

lemma add_token_rows_registers:
  "\<forall>row\<in>set rows. validate (fst (snd row)) (snd (snd row)) \<noteq> None \<Longrightarrow>
   fst (add_token_rows validate b rows) = Inr ()
   \<and> dom (managed_tokens (snd (add_token_rows validate b rows)))
       = dom (managed_tokens b)
         \<union> (\<lambda>row. the (validate (fst (snd row)) (snd (snd row)))) ` set rows"
proof (induction rows arbitrary: b)
  case Nil
  show ?case by simp
next
  case (Cons row rows)
  from Cons.prems obtain user_id
    where v: "validate (fst (snd row)) (snd (snd row)) = Some user_id"
    by auto
  from Cons.prems
  have rest: "\<forall>row\<in>set rows. validate (fst (snd row)) (snd (snd row)) \<noteq> None"
    by simp
  let ?b1 = "b\<lparr>managed_tokens := (managed_tokens b)(user_id \<mapsto> (fst (snd row), snd (snd row))),
               token_database :=
                 upsert_token (user_id, fst (snd row), snd (snd row)) (token_database b)\<rparr>"
  have step: "add_token validate b (fst (snd row)) (snd (snd row)) = (Inr user_id, ?b1)"
    using v by (simp add: add_token_accepted)
  have d: "dom (managed_tokens ?b1) = insert user_id (dom (managed_tokens b))"
    by (simp add: fun_upd_def dom_def) auto
  have run: "add_token_rows validate b (row # rows) = add_token_rows validate ?b1 rows"
    by (simp add: step)
  have img: "(\<lambda>row. the (validate (fst (snd row)) (snd (snd row)))) ` set (row # rows)
       = insert user_id ((\<lambda>row. the (validate (fst (snd row)) (snd (snd row)))) ` set rows)"
    using v by simp
  show ?case
    unfolding run img using Cons.IH [OF rest, of ?b1] unfolding d by auto
qed

lemma add_token_rows_own_keys:
  "\<forall>row\<in>set rows. validate (fst (snd row)) (snd (snd row)) = Some (fst row) \<Longrightarrow>
   fst (add_token_rows validate b rows) = Inr ()
   \<and> token_database (snd (add_token_rows validate b rows))
       = foldl (\<lambda>db row. upsert_token row db) (token_database b) rows
   \<and> managed_tokens (snd (add_token_rows validate b rows))
       = managed_tokens b ++ map_of (rev rows)"
proof (induction rows arbitrary: b)
  case Nil
  show ?case by simp
next
  case (Cons row rows)
  from Cons.prems
  have v: "validate (fst (snd row)) (snd (snd row)) = Some (fst row)"
    and rest: "\<forall>row\<in>set rows. validate (fst (snd row)) (snd (snd row)) = Some (fst row)"
    by simp_all
  let ?b1 = "b\<lparr>managed_tokens := (managed_tokens b)(fst row \<mapsto> snd row),
               token_database := upsert_token row (token_database b)\<rparr>"
  have step: "add_token validate b (fst (snd row)) (snd (snd row)) = (Inr (fst row), ?b1)"
    using v by (simp add: add_token_accepted)
  have run: "add_token_rows validate b (row # rows) = add_token_rows validate ?b1 rows"
    by (simp add: step)
  have m: "(managed_tokens b)(fst row \<mapsto> snd row) ++ map_of (rev rows)
         = managed_tokens b ++ map_of (rev (row # rows))"
    by (simp add: map_add_assoc [symmetric])
  have sel: "managed_tokens ?b1 = (managed_tokens b)(fst row \<mapsto> snd row)"
    "token_database ?b1 = upsert_token row (token_database b)"
    by (simp_all add: fun_upd_def)
  show ?case
    unfolding run using Cons.IH [OF rest, of ?b1] unfolding sel m by simp
qed

lemma foldl_upsert_token_same:
  "distinct (map fst db) \<Longrightarrow> set rows \<subseteq> set db \<Longrightarrow>
   foldl (\<lambda>db row. upsert_token row db) db rows = db"
  by (induction rows) (simp_all add: upsert_token_same)

lemma add_token_rows_writes:
  "\<forall>row\<in>set rows. validate (fst (snd row)) (snd (snd row)) \<noteq> None \<Longrightarrow>
   token_database (snd (add_token_rows validate b rows))
     = foldl (\<lambda>db row.
          upsert_token (the (validate (fst (snd row)) (snd (snd row))), fst (snd row), snd (snd row)) db)
        (token_database b) rows"
proof (induction rows arbitrary: b)
  case Nil
  show ?case by simp
next
  case (Cons row rows)
  from Cons.prems obtain user_id
    where v: "validate (fst (snd row)) (snd (snd row)) = Some user_id"
    by auto
  from Cons.prems
  have rest: "\<forall>row\<in>set rows. validate (fst (snd row)) (snd (snd row)) \<noteq> None"
    by simp
  let ?b1 = "b\<lparr>managed_tokens := (managed_tokens b)(user_id \<mapsto> (fst (snd row), snd (snd row))),
               token_database :=
                 upsert_token (user_id, fst (snd row), snd (snd row)) (token_database b)\<rparr>"
  have step: "add_token validate b (fst (snd row)) (snd (snd row)) = (Inr user_id, ?b1)"
    using v by (simp add: add_token_accepted)
  have run: "add_token_rows validate b (row # rows) = add_token_rows validate ?b1 rows"
    by (simp add: step)
  show ?case
    unfolding run using Cons.IH [OF rest, of ?b1] v by simp
qed

lemma map_of_upsert_token:
  "map_of (upsert_token new rows) = (map_of rows)(fst new \<mapsto> snd new)"
proof (induction rows)
  case Nil
  show ?case by (cases new) simp
next
  case (Cons row rows)
  show ?case
  proof (cases "fst row = fst new")
    case True
    then show ?thesis by (cases row) (auto simp: fun_eq_iff)
  next
    case False
    with Cons show ?thesis by (cases row) (auto simp: fun_eq_iff)
  qed
qed

text \<open>
  C10. \<^verbatim>\<open>load_tokens\<close> is not a pure read: it calls \<^verbatim>\<open>add_token\<close> on every stored
  row, and each call writes the row's token and refresh into the tokens table
  under the user that the pair validates to (and registers them in memory).
  When every stored pair validates, the call returns and the table after it is
  these writes applied in order to the table before it; one such write makes
  the table map the user to the pair and leaves the other users as they were.
  When every stored pair still validates to its stored user (and the keys are
  distinct, as the primary key has them), the table after the call is the table
  before it, and every stored user is registered.
\<close>

theorem load_tokens_write_back_is_identity:
  "((\<forall>row\<in>set (token_database b). validate (fst (snd row)) (snd (snd row)) \<noteq> None) \<longrightarrow>
      fst (load_tokens validate b) = Inr ()
      \<and> token_database (snd (load_tokens validate b))
          = foldl (\<lambda>db row.
               upsert_token (the (validate (fst (snd row)) (snd (snd row))), fst (snd row), snd (snd row)) db)
             (token_database b) (token_database b))
   \<and> map_of (upsert_token new rows) = (map_of rows)(fst new \<mapsto> snd new)
   \<and> (distinct (map fst (token_database b))
       \<and> (\<forall>row\<in>set (token_database b). validate (fst (snd row)) (snd (snd row)) = Some (fst row)) \<longrightarrow>
      fst (load_tokens validate b) = Inr ()
      \<and> token_database (snd (load_tokens validate b)) = token_database b
      \<and> fst ` set (token_database b) \<subseteq> dom (managed_tokens (snd (load_tokens validate b))))"
proof -
  have writes: "fst (load_tokens validate b) = Inr ()
      \<and> token_database (snd (load_tokens validate b))
          = foldl (\<lambda>db row.
               upsert_token (the (validate (fst (snd row)) (snd (snd row))), fst (snd row), snd (snd row)) db)
             (token_database b) (token_database b)"
    if valid: "\<forall>row\<in>set (token_database b). validate (fst (snd row)) (snd (snd row)) \<noteq> None"
    unfolding load_tokens_def
    using add_token_rows_registers [OF valid, of b] add_token_rows_writes [OF valid, of b]
    by simp
  have identity: "fst (load_tokens validate b) = Inr ()
      \<and> token_database (snd (load_tokens validate b)) = token_database b
      \<and> fst ` set (token_database b) \<subseteq> dom (managed_tokens (snd (load_tokens validate b)))"
    if keys: "distinct (map fst (token_database b))"
      and own: "\<forall>row\<in>set (token_database b). validate (fst (snd row)) (snd (snd row)) = Some (fst row)"
  proof -
    note run = add_token_rows_own_keys [OF own, of b, folded load_tokens_def]
    have same: "foldl (\<lambda>db row. upsert_token row db) (token_database b) (token_database b)
         = token_database b"
      using keys by (rule foldl_upsert_token_same) simp
    have reg: "managed_tokens (snd (load_tokens validate b)) (fst row) = Some (snd row)"
      if "row \<in> set (token_database b)" for row
    proof -
      from keys have "distinct (map fst (rev (token_database b)))"
        by (simp add: rev_map [symmetric])
      moreover from that have "(fst row, snd row) \<in> set (rev (token_database b))"
        by simp
      ultimately have "map_of (rev (token_database b)) (fst row) = Some (snd row)"
        by (rule map_of_is_SomeI)
      then show ?thesis
        using run by (simp add: map_add_find_right)
    qed
    have "fst ` set (token_database b) \<subseteq> dom (managed_tokens (snd (load_tokens validate b)))"
      using reg by auto
    then show ?thesis
      using run same by simp
  qed
  show ?thesis
    using writes identity map_of_upsert_token [of new rows] by blast
qed

text \<open>
  Two tables under the sample identity service. In the first, the stored pair
  validates to user \<open>1\<close>, who has no row yet: \<^verbatim>\<open>load_tokens\<close> adds one, so the
  write shows. In the second, each pair validates to its stored user and the
  table comes out as it went in.
\<close>

theorem load_tokens_write_back_is_identity_witness:
  "token_database (snd (load_tokens sample_validate
          (fresh_bot\<lparr>token_database := [(''7'', ''tokA'', ''rA'')]\<rparr>)))
     = [(''7'', ''tokA'', ''rA''), (''1'', ''tokA'', ''rA'')]
   \<and> fst (load_tokens sample_validate
          (fresh_bot\<lparr>token_database := [(''1'', ''tokA'', ''rA''), (''2'', ''tokB'', ''rB'')]\<rparr>))
     = Inr ()
   \<and> token_database (snd (load_tokens sample_validate
          (fresh_bot\<lparr>token_database := [(''1'', ''tokA'', ''rA''), (''2'', ''tokB'', ''rB'')]\<rparr>)))
     = [(''1'', ''tokA'', ''rA''), (''2'', ''tokB'', ''rB'')]"
proof -
  let ?w = "fresh_bot\<lparr>token_database := [(''7'', ''tokA'', ''rA'')]\<rparr>"
  let ?b = "fresh_bot\<lparr>token_database := [(''1'', ''tokA'', ''rA''), (''2'', ''tokB'', ''rB'')]\<rparr>"
  have tokA: "sample_validate ''tokA'' ''rA'' = Some ''1''"
    by (simp add: sample_validate_def)
  have valid: "\<forall>row\<in>set (token_database ?w).
             sample_validate (fst (snd row)) (snd (snd row)) \<noteq> None"
    by (simp add: tokA)
  have written: "token_database (snd (load_tokens sample_validate ?w))
      = [(''7'', ''tokA'', ''rA''), (''1'', ''tokA'', ''rA'')]"
    using load_tokens_write_back_is_identity [of ?w sample_validate, THEN conjunct1] valid
    by (simp add: tokA)
  have d: "distinct (map fst (token_database ?b))" by simp
  have v: "\<forall>row\<in>set (token_database ?b).
             sample_validate (fst (snd row)) (snd (snd row)) = Some (fst row)"
    by (simp add: sample_validate_def)
  have same: "fst (load_tokens sample_validate ?b) = Inr ()
      \<and> token_database (snd (load_tokens sample_validate ?b)) = token_database ?b"
    using load_tokens_write_back_is_identity [of ?b sample_validate,
        THEN conjunct2, THEN conjunct2] d v
    by blast
  show ?thesis
    using written same by simp
qed

text \<open>
  C4, as the code has it. \<^verbatim>\<open>load_tokens\<close> calls \<^verbatim>\<open>add_token\<close> on the stored rows in
  order and catches nothing. At the first row whose pair fails validation the
  exception leaves \<^verbatim>\<open>load_tokens\<close>: the rows before it have been validated and
  registered, and the state is the one they left, so no row after it is
  validated or registered.
\<close>

theorem load_tokens_stops_at_first_rejected:
  assumes "token_database b = pre @ bad # post"
    and "\<forall>row\<in>set pre. validate (fst (snd row)) (snd (snd row)) \<noteq> None"
    and "validate (fst (snd bad)) (snd (snd bad)) = None"
  shows "fst (add_token_rows validate b pre) = Inr ()
       \<and> load_tokens validate b = (Inl InvalidTokenException, snd (add_token_rows validate b pre))
       \<and> dom (managed_tokens (snd (load_tokens validate b)))
           = dom (managed_tokens b)
             \<union> (\<lambda>row. the (validate (fst (snd row)) (snd (snd row)))) ` set pre"
proof -
  obtain b1 where pre: "add_token_rows validate b pre = (Inr (), b1)"
    using add_token_rows_registers [OF assms(2), of b]
    by (cases "add_token_rows validate b pre") simp
  have "load_tokens validate b = (Inl InvalidTokenException, b1)"
    using assms(3)
    by (simp add: load_tokens_def assms(1) add_token_rows_append pre add_token_rejected)
  then show ?thesis
    using add_token_rows_registers [OF assms(2), of b] pre by simp
qed

theorem load_tokens_stops_at_first_rejected_witness:
  "fst (load_tokens sample_validate
          (fresh_bot\<lparr>token_database :=
             [(''1'', ''tokA'', ''rA''), (''9'', ''revoked'', ''r9''), (''2'', ''tokB'', ''rB'')]\<rparr>))
     = Inl InvalidTokenException
   \<and> dom (managed_tokens (snd (load_tokens sample_validate
          (fresh_bot\<lparr>token_database :=
             [(''1'', ''tokA'', ''rA''), (''9'', ''revoked'', ''r9''), (''2'', ''tokB'', ''rB'')]\<rparr>))))
     = {''1''}"
proof -
  let ?b = "fresh_bot\<lparr>token_database :=
             [(''1'', ''tokA'', ''rA''), (''9'', ''revoked'', ''r9''), (''2'', ''tokB'', ''rB'')]\<rparr>"
  have t: "token_database ?b = [(''1'', ''tokA'', ''rA'')] @ (''9'', ''revoked'', ''r9'') # [(''2'', ''tokB'', ''rB'')]"
    by simp
  have p: "\<forall>row\<in>set [(''1'', ''tokA'', ''rA'')].
             sample_validate (fst (snd row)) (snd (snd row)) \<noteq> None"
    by (simp add: sample_validate_def)
  have r: "sample_validate (fst (snd (''9'', ''revoked'', ''r9''))) (snd (snd (''9'', ''revoked'', ''r9''))) = None"
    by (simp add: sample_validate_def)
  have v: "sample_validate ''tokA'' ''rA'' = Some ''1''"
    by (simp add: sample_validate_def)
  note stops = load_tokens_stops_at_first_rejected [OF t p r]
  have raised: "fst (load_tokens sample_validate ?b) = Inl InvalidTokenException"
    using stops [THEN conjunct2, THEN conjunct1] by simp
  have registered: "dom (managed_tokens (snd (load_tokens sample_validate ?b))) = {''1''}"
    using stops [THEN conjunct2, THEN conjunct2] by (simp add: fresh_bot_def v)
  show ?thesis
    using raised registered by simp
qed

text \<open>
  Two stored credentials, the first revoked upstream, the second still good:
  \<^verbatim>\<open>load_tokens\<close> raises at the first and never registers the second.
\<close>

theorem load_tokens_one_bad_token_aborts:
  "sample_validate ''tokB'' ''rB'' = Some ''2''
   \<and> fst (load_tokens sample_validate
        (fresh_bot\<lparr>token_database := [(''9'', ''revoked'', ''r9''), (''2'', ''tokB'', ''rB'')]\<rparr>))
       = Inl InvalidTokenException
   \<and> managed_tokens (snd (load_tokens sample_validate
        (fresh_bot\<lparr>token_database := [(''9'', ''revoked'', ''r9''), (''2'', ''tokB'', ''rB'')]\<rparr>)))
        ''2'' = None"
  by (simp add: load_tokens_def add_token_def super_add_token_def sample_validate_def fresh_bot_def)

section \<open>Dynamic responses: \<^verbatim>\<open>add_response\<close> and \<^verbatim>\<open>load_responses\<close>\<close>

lemma add_response_raises: "add_response b command response = (Inl ProgrammingError, b)"
  by (simp add: add_response_def add_response_via_def execute_RESPONSES_QUERY)

lemma add_response_rows_raises:
  "add_response_rows b rows = (if rows = [] then Inr () else Inl ProgrammingError, b)"
  by (cases rows) (simp_all add: add_response_raises)

text \<open>
  What the first statement alone would do on a conflict: the \<^verbatim>\<open>SET\<close> clause that
  ends at the semicolon names only \<open>command\<close>, so the stored response stays.
\<close>

lemma insert_response_keeps_response:
  "insert_response (command, response2) (insert_response (command, response1) [])
     = [(command, response1)]"
  by simp

lemma split1_space:
  "CHR '' '' \<in> set content \<Longrightarrow>
   split1 content =
     [takeWhile (\<lambda>c. c \<noteq> CHR '' '') content, tl (dropWhile (\<lambda>c. c \<noteq> CHR '' '') content)]"
proof -
  assume "CHR '' '' \<in> set content"
  then have "dropWhile (\<lambda>c. c \<noteq> CHR '' '') content \<noteq> []"
    by (auto simp: dropWhile_eq_Nil_conv)
  then show ?thesis
    by (cases "dropWhile (\<lambda>c. c \<noteq> CHR '' '') content") (simp_all add: split1_def)
qed

lemma split1_no_space: "CHR '' '' \<notin> set content \<Longrightarrow> split1 content = [content]"
proof -
  assume "CHR '' '' \<notin> set content"
  then have none: "dropWhile (\<lambda>c. c \<noteq> CHR '' '') content = []"
    by (auto simp: dropWhile_eq_Nil_conv)
  show ?thesis
    unfolding split1_def none by simp
qed

text \<open>
  C1. \<^verbatim>\<open>add_response("foo", "bar")\<close> called twice on an empty responses table: both
  calls raise at \<^verbatim>\<open>execute\<close>, which refuses the two-statement query text, and the
  table holds no row for \<open>foo\<close> afterwards. Under a driver that runs the first
  statement only, the call still raises (\<open>NameError\<close>), and adding \<open>foo\<close> again
  with another text leaves the first text in the table.
\<close>

theorem add_response_twice_stores_nothing:
  "fst (add_response fresh_bot ''foo'' ''bar'') = Inl ProgrammingError
   \<and> fst (add_response (snd (add_response fresh_bot ''foo'' ''bar'')) ''foo'' ''bar'')
       = Inl ProgrammingError
   \<and> responses_database (snd (add_response (snd (add_response fresh_bot ''foo'' ''bar'')) ''foo'' ''bar''))
       = []
   \<and> fst (add_response_via first_statement_only fresh_bot ''foo'' ''bar'') = Inl NameError
   \<and> responses_database
        (snd (add_response_via first_statement_only
           (snd (add_response_via first_statement_only fresh_bot ''foo'' ''bar'')) ''foo'' ''baz''))
       = [(''foo'', ''bar'')]"
  by (simp add: add_response_raises add_response_via_def first_statement_only_def fresh_bot_def)

text \<open>
  C2. \<^verbatim>\<open>add_response\<close> never returns normally, whatever the database driver does
  with the query: when the write fails its exception leaves the function, and
  when the write completes \<^verbatim>\<open>return resp\<close> raises \<open>NameError\<close>. So whenever
  \<^verbatim>\<open>addcommand\<close> reaches its \<^verbatim>\<open>try\<close> (the content has a space to split at), the
  \<^verbatim>\<open>except\<close> branch is how it completes: the handler returns and its one message is
  the failure message.
\<close>

theorem add_response_never_returns:
  "(\<exists>e. fst (add_response_via exec b command response) = Inl e)
   \<and> (exec RESPONSES_QUERY (insert_response (command, response)) (responses_database b) = Inr db \<longrightarrow>
        add_response_via exec b command response
          = (Inl NameError, b\<lparr>responses_database := db\<rparr>))
   \<and> (\<exists>e. fst (add_response b command response) = Inl e)
   \<and> (CHR '' '' \<in> set content \<longrightarrow>
        fst (addcommand_via exec b content) = Inr ()
        \<and> chat (snd (addcommand_via exec b content))
            = chat b @ [Send ''Failed to add command! :(''])
   \<and> (CHR '' '' \<in> set content \<longrightarrow>
        addcommand b content = (Inr (), b\<lparr>chat := chat b @ [Send ''Failed to add command! :('']\<rparr>))"
proof -
  have via: "\<exists>e. fst (add_response_via exec b c r) = Inl e" for exec b c r
    by (simp add: add_response_via_def split: sum.splits)
  have handler: "fst (addcommand_via exec b content) = Inr ()
        \<and> chat (snd (addcommand_via exec b content))
            = chat b @ [Send ''Failed to add command! :('']"
    if "CHR '' '' \<in> set content"
    using that
    by (simp add: addcommand_via_def split1_space item_def add_response_via_def
        split: sum.splits)
  have concrete: "addcommand b content
        = (Inr (), b\<lparr>chat := chat b @ [Send ''Failed to add command! :('']\<rparr>)"
    if "CHR '' '' \<in> set content"
    using that
    by (simp add: addcommand_def addcommand_via_def split1_space item_def
        add_response_raises [unfolded add_response_def])
  show ?thesis
    using via [of exec b command response] via [of execute b command response] handler concrete
    by (simp add: add_response_def add_response_via_def)
qed

theorem add_response_never_returns_witness:
  "add_response_via first_statement_only fresh_bot ''foo'' ''bar''
     = (Inl NameError, fresh_bot\<lparr>responses_database := [(''foo'', ''bar'')]\<rparr>)
   \<and> fst (addcommand fresh_bot ''foo bar'') = Inr ()
   \<and> chat (snd (addcommand fresh_bot ''foo bar'')) = [Send ''Failed to add command! :('']"
proof -
  have ran: "first_statement_only RESPONSES_QUERY (insert_response (''foo'', ''bar''))
               (responses_database fresh_bot) = Inr [(''foo'', ''bar'')]"
    by (simp add: first_statement_only_def fresh_bot_def)
  have space: "CHR '' '' \<in> set ''foo bar''"
    by simp
  note never = add_response_never_returns
    [of first_statement_only fresh_bot "''foo''" "''bar''" "[(''foo'', ''bar'')]" "''foo bar''"]
  have first: "add_response_via first_statement_only fresh_bot ''foo'' ''bar''
     = (Inl NameError, fresh_bot\<lparr>responses_database := [(''foo'', ''bar'')]\<rparr>)"
    using never [THEN conjunct2, THEN conjunct1] ran by simp
  have last: "addcommand fresh_bot ''foo bar''
     = (Inr (), fresh_bot\<lparr>chat := chat fresh_bot @ [Send ''Failed to add command! :('']\<rparr>)"
    using never [THEN conjunct2, THEN conjunct2, THEN conjunct2, THEN conjunct2] space by simp
  show ?thesis
    using first by (simp add: last) (simp add: fresh_bot_def)
qed

section \<open>The command router\<close>

lemma get_command_None:
  "get_command name = None \<longleftrightarrow>
   name \<notin> set [''hi'', ''hello'', ''howdy'', ''hey'', ''socials'', ''addcommand'']"
  by (simp add: get_command_def)

lemma addcommand_no_space:
  "CHR '' '' \<notin> set content \<Longrightarrow> addcommand b content = (Inl IndexError, b)"
  by (simp add: addcommand_def addcommand_via_def split1_no_space item_def)

lemma addcommand_space:
  "CHR '' '' \<in> set content \<Longrightarrow>
   addcommand b content = (Inr (), b\<lparr>chat := chat b @ [Send ''Failed to add command! :('']\<rparr>)"
  by (simp add: addcommand_def addcommand_via_def split1_space item_def
      add_response_raises [unfolded add_response_def])

lemma invoke_greeting:
  "name \<in> set [''hi'', ''hello'', ''howdy'', ''hey''] \<Longrightarrow>
   invoke b who name rest
     = (Inr (), b\<lparr>chat := chat b @ [Reply (''Hello '' @ mention who @ ''!'')]\<rparr>)"
  by (auto simp: invoke_def get_command_def hi_def)

lemma invoke_socials:
  "invoke b who ''socials'' rest
     = (Inr (), b\<lparr>chat := chat b @ [Send ''https://bsky.app/profile/tcurls.net'']\<rparr>)"
  by (simp add: invoke_def get_command_def socials_def)

lemma invoke_addcommand:
  "invoke b who ''addcommand'' rest
     = (if \<not> is_elevated who then (Inl GuardFailure, b)
        else if rest = [] then (Inl MissingRequiredArgument, b)
        else addcommand b rest)"
  by (simp add: invoke_def get_command_def)

lemma invoke_other:
  "name \<notin> set [''hi'', ''hello'', ''howdy'', ''hey'', ''socials'', ''addcommand''] \<Longrightarrow>
   invoke b who name rest = (Inl CommandNotFound, b)"
proof -
  assume "name \<notin> set [''hi'', ''hello'', ''howdy'', ''hey'', ''socials'', ''addcommand'']"
  then have "get_command name = None"
    by (rule get_command_None [THEN iffD2])
  then show ?thesis by (simp add: invoke_def)
qed

lemma event_message_dropped:
  "chatter_id (from_chatter m) = BOT_ID \<or> source_broadcaster m \<noteq> None \<Longrightarrow>
   event_message BOT_ID b m = (Inr (), b)"
  by (auto simp: event_message_def)

lemma event_message_passed:
  "chatter_id (from_chatter m) \<noteq> BOT_ID \<Longrightarrow> source_broadcaster m = None \<Longrightarrow>
   event_message BOT_ID b m = invoke b (from_chatter m) (command_name m) (remainder m)"
  by (simp add: event_message_def)

text \<open>What a command answers does not depend on the responses table.\<close>

lemma invoke_ignores_responses:
  "fst (invoke (b\<lparr>responses_database := table\<rparr>) who name rest) = fst (invoke b who name rest)
   \<and> chat (snd (invoke (b\<lparr>responses_database := table\<rparr>) who name rest))
       = chat (snd (invoke b who name rest))"
proof (cases "get_command name")
  case None
  then show ?thesis by (simp add: invoke_def)
next
  case (Some c)
  show ?thesis
  proof (cases c)
    case Hi
    with Some show ?thesis by (simp add: invoke_def hi_def)
  next
    case Socials
    with Some show ?thesis by (simp add: invoke_def socials_def)
  next
    case Addcommand
    show ?thesis
    proof (cases "CHR '' '' \<in> set rest")
      case True
      with Some Addcommand show ?thesis by (simp add: invoke_def addcommand_space)
    next
      case False
      with Some Addcommand show ?thesis by (simp add: invoke_def addcommand_no_space)
    qed
  qed
qed

text \<open>
  C3, as the code has it. A message of the bot's own account or from shared
  chat is dropped: no reply, no change. For every other message the router
  knows the built-in commands only. A built-in name runs its handler whatever
  the responses table holds, also a record of the same name: \<^verbatim>\<open>!hi\<close> and its
  aliases greet the chatter, \<^verbatim>\<open>!socials\<close> sends the link, \<^verbatim>\<open>!addcommand\<close> goes to
  its guard and its handler. Any other name finds no command, whether the
  responses table has a record for it or not: no reply is sent and nothing
  changes (the framework reports \<open>CommandNotFound\<close> to its error handler).
\<close>

theorem router_knows_static_commands_only:
  "(chatter_id (from_chatter m) = BOT_ID \<or> source_broadcaster m \<noteq> None \<longrightarrow>
      event_message BOT_ID b m = (Inr (), b))
   \<and> (chatter_id (from_chatter m) \<noteq> BOT_ID \<and> source_broadcaster m = None \<longrightarrow>
        (command_name m \<in> set [''hi'', ''hello'', ''howdy'', ''hey''] \<longrightarrow>
           event_message BOT_ID b m
             = (Inr (), b\<lparr>chat := chat b @ [Reply (''Hello '' @ mention (from_chatter m) @ ''!'')]\<rparr>))
      \<and> (command_name m = ''socials'' \<longrightarrow>
           event_message BOT_ID b m
             = (Inr (), b\<lparr>chat := chat b @ [Send ''https://bsky.app/profile/tcurls.net'']\<rparr>))
      \<and> (command_name m = ''addcommand'' \<longrightarrow>
           event_message BOT_ID b m
             = (if \<not> is_elevated (from_chatter m) then (Inl GuardFailure, b)
                else if remainder m = [] then (Inl MissingRequiredArgument, b)
                else addcommand b (remainder m)))
      \<and> (command_name m \<notin> set [''hi'', ''hello'', ''howdy'', ''hey'', ''socials'', ''addcommand''] \<longrightarrow>
           event_message BOT_ID b m = (Inl CommandNotFound, b)))"
proof -
  have dropped: "event_message BOT_ID b m = (Inr (), b)"
    if "chatter_id (from_chatter m) = BOT_ID \<or> source_broadcaster m \<noteq> None"
    using that by (rule event_message_dropped)
  have passed: "event_message BOT_ID b m
      = invoke b (from_chatter m) (command_name m) (remainder m)"
    if "chatter_id (from_chatter m) \<noteq> BOT_ID \<and> source_broadcaster m = None"
    using that by (simp add: event_message_passed)
  have greet: "invoke b (from_chatter m) (command_name m) (remainder m)
      = (Inr (), b\<lparr>chat := chat b @ [Reply (''Hello '' @ mention (from_chatter m) @ ''!'')]\<rparr>)"
    if "command_name m \<in> set [''hi'', ''hello'', ''howdy'', ''hey'']"
    using that by (rule invoke_greeting)
  have link: "invoke b (from_chatter m) (command_name m) (remainder m)
      = (Inr (), b\<lparr>chat := chat b @ [Send ''https://bsky.app/profile/tcurls.net'']\<rparr>)"
    if "command_name m = ''socials''"
    using that by (simp add: invoke_socials)
  have add: "invoke b (from_chatter m) (command_name m) (remainder m)
      = (if \<not> is_elevated (from_chatter m) then (Inl GuardFailure, b)
         else if remainder m = [] then (Inl MissingRequiredArgument, b)
         else addcommand b (remainder m))"
    if "command_name m = ''addcommand''"
    using that by (simp add: invoke_addcommand)
  have other: "invoke b (from_chatter m) (command_name m) (remainder m) = (Inl CommandNotFound, b)"
    if "command_name m \<notin> set [''hi'', ''hello'', ''howdy'', ''hey'', ''socials'', ''addcommand'']"
    using that by (rule invoke_other)
  have taken: "(command_name m \<in> set [''hi'', ''hello'', ''howdy'', ''hey''] \<longrightarrow>
           event_message BOT_ID b m
             = (Inr (), b\<lparr>chat := chat b @ [Reply (''Hello '' @ mention (from_chatter m) @ ''!'')]\<rparr>))
      \<and> (command_name m = ''socials'' \<longrightarrow>
           event_message BOT_ID b m
             = (Inr (), b\<lparr>chat := chat b @ [Send ''https://bsky.app/profile/tcurls.net'']\<rparr>))
      \<and> (command_name m = ''addcommand'' \<longrightarrow>
           event_message BOT_ID b m
             = (if \<not> is_elevated (from_chatter m) then (Inl GuardFailure, b)
                else if remainder m = [] then (Inl MissingRequiredArgument, b)
                else addcommand b (remainder m)))
      \<and> (command_name m \<notin> set [''hi'', ''hello'', ''howdy'', ''hey'', ''socials'', ''addcommand''] \<longrightarrow>
           event_message BOT_ID b m = (Inl CommandNotFound, b))"
    if ordinary: "chatter_id (from_chatter m) \<noteq> BOT_ID \<and> source_broadcaster m = None"
    unfolding passed [OF ordinary] using greet link add other by blast
  show ?thesis
  proof (rule conjI)
    show "chatter_id (from_chatter m) = BOT_ID \<or> source_broadcaster m \<noteq> None \<longrightarrow>
      event_message BOT_ID b m = (Inr (), b)"
      using dropped by (rule impI)
    show "chatter_id (from_chatter m) \<noteq> BOT_ID \<and> source_broadcaster m = None \<longrightarrow>
        (command_name m \<in> set [''hi'', ''hello'', ''howdy'', ''hey''] \<longrightarrow>
           event_message BOT_ID b m
             = (Inr (), b\<lparr>chat := chat b @ [Reply (''Hello '' @ mention (from_chatter m) @ ''!'')]\<rparr>))
      \<and> (command_name m = ''socials'' \<longrightarrow>
           event_message BOT_ID b m
             = (Inr (), b\<lparr>chat := chat b @ [Send ''https://bsky.app/profile/tcurls.net'']\<rparr>))
      \<and> (command_name m = ''addcommand'' \<longrightarrow>
           event_message BOT_ID b m
             = (if \<not> is_elevated (from_chatter m) then (Inl GuardFailure, b)
                else if remainder m = [] then (Inl MissingRequiredArgument, b)
                else addcommand b (remainder m)))
      \<and> (command_name m \<notin> set [''hi'', ''hello'', ''howdy'', ''hey'', ''socials'', ''addcommand''] \<longrightarrow>
           event_message BOT_ID b m = (Inl CommandNotFound, b))"
      using taken by (rule impI)
  qed
qed

theorem router_knows_static_commands_only_witness:
  "chat (snd (event_message ''999''
        (fresh_bot\<lparr>responses_database := [(''hi'', ''dynamic text''), (''foo'', ''bar'')]\<rparr>)
        (channel_message viewer ''hi'' []))) = [Reply ''Hello @viewer!'']
   \<and> event_message ''999''
        (fresh_bot\<lparr>responses_database := [(''hi'', ''dynamic text''), (''foo'', ''bar'')]\<rparr>)
        (channel_message viewer ''foo'' [])
       = (Inl CommandNotFound,
          fresh_bot\<lparr>responses_database := [(''hi'', ''dynamic text''), (''foo'', ''bar'')]\<rparr>)
   \<and> event_message ''999''
        (fresh_bot\<lparr>responses_database := [(''hi'', ''dynamic text''), (''foo'', ''bar'')]\<rparr>)
        (channel_message (viewer\<lparr>chatter_id := ''999''\<rparr>) ''hi'' [])
       = (Inr (), fresh_bot\<lparr>responses_database := [(''hi'', ''dynamic text''), (''foo'', ''bar'')]\<rparr>)"
proof -
  let ?b = "fresh_bot\<lparr>responses_database := [(''hi'', ''dynamic text''), (''foo'', ''bar'')]\<rparr>"
  have ordinary: "chatter_id (from_chatter (channel_message viewer name rest)) \<noteq> ''999''
      \<and> source_broadcaster (channel_message viewer name rest) = None" for name rest
    by (simp add: channel_message_def viewer_def)
  have static: "command_name (channel_message viewer ''hi'' []) \<in> set [''hi'', ''hello'', ''howdy'', ''hey'']"
    by (simp add: channel_message_def)
  have dynamic: "command_name (channel_message viewer ''foo'' [])
      \<notin> set [''hi'', ''hello'', ''howdy'', ''hey'', ''socials'', ''addcommand'']"
    by (simp add: channel_message_def)
  have own: "chatter_id (from_chatter (channel_message (viewer\<lparr>chatter_id := ''999''\<rparr>) ''hi'' [])) = ''999''"
    by (simp add: channel_message_def)
  have greeted: "event_message ''999'' ?b (channel_message viewer ''hi'' [])
      = (Inr (), ?b\<lparr>chat := chat ?b
           @ [Reply (''Hello '' @ mention (from_chatter (channel_message viewer ''hi'' [])) @ ''!'')]\<rparr>)"
    using router_knows_static_commands_only
      [of "channel_message viewer ''hi'' []" "''999''" ?b, THEN conjunct2]
      ordinary [of "''hi''" "[]"] static
    by blast
  have ignored: "event_message ''999'' ?b (channel_message viewer ''foo'' [])
      = (Inl CommandNotFound, ?b)"
    using router_knows_static_commands_only
      [of "channel_message viewer ''foo'' []" "''999''" ?b, THEN conjunct2]
      ordinary [of "''foo''" "[]"] dynamic
    by blast
  have dropped: "event_message ''999'' ?b (channel_message (viewer\<lparr>chatter_id := ''999''\<rparr>) ''hi'' [])
      = (Inr (), ?b)"
    using router_knows_static_commands_only
      [of "channel_message (viewer\<lparr>chatter_id := ''999''\<rparr>) ''hi'' []" "''999''" ?b, THEN conjunct1]
      own
    by blast
  show ?thesis
    by (simp add: greeted ignored dropped) (simp add: fresh_bot_def viewer_def channel_message_def)
qed

text \<open>
  The responses table holds \<open>foo\<close> with the text \<open>bar\<close>, and a viewer's \<^verbatim>\<open>!foo\<close>
  in the channel gets no reply.
\<close>

theorem stored_command_gets_no_reply:
  "(''foo'', ''bar'') \<in> set (responses_database (fresh_bot\<lparr>responses_database := [(''foo'', ''bar'')]\<rparr>))
   \<and> fst (event_message ''999'' (fresh_bot\<lparr>responses_database := [(''foo'', ''bar'')]\<rparr>)
        (channel_message viewer ''foo'' []))
       = Inl CommandNotFound
   \<and> chat (snd (event_message ''999'' (fresh_bot\<lparr>responses_database := [(''foo'', ''bar'')]\<rparr>)
        (channel_message viewer ''foo'' [])))
       = []"
  by (simp add: event_message_def channel_message_def viewer_def invoke_def get_command_def
      fresh_bot_def)

text \<open>
  C7. \<^verbatim>\<open>!addcommand foo\<close> from a moderator: the content has no space, so
  \<^verbatim>\<open>content_array[1]\<close> raises \<open>IndexError\<close> before the \<^verbatim>\<open>try\<close>. The exception leaves
  the handler, no message is sent, and no record is created.
\<close>

theorem addcommand_without_response_raises:
  "invoke fresh_bot moderator ''addcommand'' ''foo'' = (Inl IndexError, fresh_bot)
   \<and> chat (snd (invoke fresh_bot moderator ''addcommand'' ''foo'')) = []
   \<and> responses_database (snd (invoke fresh_bot moderator ''addcommand'' ''foo'')) = []
   \<and> event_message ''999'' fresh_bot (channel_message moderator ''addcommand'' ''foo'')
       = (Inl IndexError, fresh_bot)"
proof -
  have "invoke fresh_bot moderator ''addcommand'' ''foo'' = (Inl IndexError, fresh_bot)"
    by (simp add: invoke_def get_command_def is_elevated_def moderator_def addcommand_no_space)
  then show ?thesis
    by (simp add: event_message_def channel_message_def) (simp add: fresh_bot_def moderator_def)
qed

text \<open>
  C8, as the code has it. \<^verbatim>\<open>!addcommand\<close> from a chatter whom the guard does not
  let pass (no moderator, no VIP, not the broadcaster): the handler does not
  run, and the state after the message is the state before it, so no record
  of the responses table is created or modified and no message is sent. When
  the message is one the bot takes up, the guard fails and the framework
  reports \<open>GuardFailure\<close> to its error handler, which logs it; a message of the
  bot's own account or from shared chat is dropped before the guard. A VIP
  passes the guard and reaches the handler.
\<close>

theorem addcommand_needs_elevated:
  "(\<not> is_elevated (from_chatter m) \<and> command_name m = ''addcommand'' \<longrightarrow>
      snd (event_message BOT_ID b m) = b
      \<and> responses_database (snd (event_message BOT_ID b m)) = responses_database b
      \<and> chat (snd (event_message BOT_ID b m)) = chat b
      \<and> (chatter_id (from_chatter m) \<noteq> BOT_ID \<and> source_broadcaster m = None \<longrightarrow>
           fst (event_message BOT_ID b m) = Inl GuardFailure)
      \<and> (chatter_id (from_chatter m) = BOT_ID \<or> source_broadcaster m \<noteq> None \<longrightarrow>
           fst (event_message BOT_ID b m) = Inr ()))
   \<and> (chatter_vip (from_chatter m) \<and> command_name m = ''addcommand'' \<and> remainder m \<noteq> []
       \<and> chatter_id (from_chatter m) \<noteq> BOT_ID \<and> source_broadcaster m = None \<longrightarrow>
      event_message BOT_ID b m = addcommand b (remainder m))"
proof -
  have blocked: "event_message BOT_ID b m
      = (if chatter_id (from_chatter m) = BOT_ID \<or> source_broadcaster m \<noteq> None then Inr ()
         else Inl GuardFailure, b)"
    if "\<not> is_elevated (from_chatter m)" and "command_name m = ''addcommand''"
    using that by (simp add: event_message_def invoke_addcommand)
  have vip: "event_message BOT_ID b m = addcommand b (remainder m)"
    if "chatter_vip (from_chatter m)" and "command_name m = ''addcommand''"
      and "remainder m \<noteq> []"
      and "chatter_id (from_chatter m) \<noteq> BOT_ID" and "source_broadcaster m = None"
    using that by (simp add: event_message_def invoke_addcommand is_elevated_def)
  have refused: "snd (event_message BOT_ID b m) = b
      \<and> responses_database (snd (event_message BOT_ID b m)) = responses_database b
      \<and> chat (snd (event_message BOT_ID b m)) = chat b
      \<and> (chatter_id (from_chatter m) \<noteq> BOT_ID \<and> source_broadcaster m = None \<longrightarrow>
           fst (event_message BOT_ID b m) = Inl GuardFailure)
      \<and> (chatter_id (from_chatter m) = BOT_ID \<or> source_broadcaster m \<noteq> None \<longrightarrow>
           fst (event_message BOT_ID b m) = Inr ())"
    if plain: "\<not> is_elevated (from_chatter m) \<and> command_name m = ''addcommand''"
  proof -
    from plain have run: "event_message BOT_ID b m
      = (if chatter_id (from_chatter m) = BOT_ID \<or> source_broadcaster m \<noteq> None then Inr ()
         else Inl GuardFailure, b)"
      by (simp add: blocked)
    show ?thesis
      unfolding run by simp
  qed
  have passes: "event_message BOT_ID b m = addcommand b (remainder m)"
    if "chatter_vip (from_chatter m) \<and> command_name m = ''addcommand'' \<and> remainder m \<noteq> []
       \<and> chatter_id (from_chatter m) \<noteq> BOT_ID \<and> source_broadcaster m = None"
    using that by (simp add: vip)
  show ?thesis
  proof (rule conjI)
    show "\<not> is_elevated (from_chatter m) \<and> command_name m = ''addcommand'' \<longrightarrow>
      snd (event_message BOT_ID b m) = b
      \<and> responses_database (snd (event_message BOT_ID b m)) = responses_database b
      \<and> chat (snd (event_message BOT_ID b m)) = chat b
      \<and> (chatter_id (from_chatter m) \<noteq> BOT_ID \<and> source_broadcaster m = None \<longrightarrow>
           fst (event_message BOT_ID b m) = Inl GuardFailure)
      \<and> (chatter_id (from_chatter m) = BOT_ID \<or> source_broadcaster m \<noteq> None \<longrightarrow>
           fst (event_message BOT_ID b m) = Inr ())"
      using refused by (rule impI)
    show "chatter_vip (from_chatter m) \<and> command_name m = ''addcommand'' \<and> remainder m \<noteq> []
       \<and> chatter_id (from_chatter m) \<noteq> BOT_ID \<and> source_broadcaster m = None \<longrightarrow>
      event_message BOT_ID b m = addcommand b (remainder m)"
      using passes by (rule impI)
  qed
qed

theorem addcommand_needs_elevated_witness:
  "fst (event_message ''999'' (fresh_bot\<lparr>responses_database := [(''foo'', ''old'')]\<rparr>)
        (channel_message viewer ''addcommand'' ''foo bar''))
       = Inl GuardFailure
   \<and> responses_database
        (snd (event_message ''999'' (fresh_bot\<lparr>responses_database := [(''foo'', ''old'')]\<rparr>)
           (channel_message viewer ''addcommand'' ''foo bar'')))
       = [(''foo'', ''old'')]
   \<and> chat (snd (event_message ''999'' fresh_bot (channel_message regular_vip ''addcommand'' ''foo bar'')))
       = [Send ''Failed to add command! :('']"
proof -
  let ?b = "fresh_bot\<lparr>responses_database := [(''foo'', ''old'')]\<rparr>"
  let ?m = "channel_message viewer ''addcommand'' ''foo bar''"
  let ?v = "channel_message regular_vip ''addcommand'' ''foo bar''"
  have plain: "\<not> is_elevated (from_chatter ?m) \<and> command_name ?m = ''addcommand''"
    by (simp add: channel_message_def viewer_def is_elevated_def)
  have taken: "chatter_id (from_chatter ?m) \<noteq> ''999'' \<and> source_broadcaster ?m = None"
    by (simp add: channel_message_def viewer_def)
  have badge: "chatter_vip (from_chatter ?v) \<and> command_name ?v = ''addcommand'' \<and> remainder ?v \<noteq> []
      \<and> chatter_id (from_chatter ?v) \<noteq> ''999'' \<and> source_broadcaster ?v = None"
    by (simp add: channel_message_def regular_vip_def)
  have refused: "fst (event_message ''999'' ?b ?m) = Inl GuardFailure
      \<and> responses_database (snd (event_message ''999'' ?b ?m)) = responses_database ?b"
    using addcommand_needs_elevated [of ?m "''999''" ?b, THEN conjunct1] plain taken
    by blast
  have reached: "event_message ''999'' fresh_bot ?v = addcommand fresh_bot (remainder ?v)"
    using addcommand_needs_elevated [of ?v "''999''" fresh_bot, THEN conjunct2] badge
    by blast
  have answered: "chat (snd (event_message ''999'' fresh_bot ?v)) = [Send ''Failed to add command! :('']"
    unfolding reached by (simp add: channel_message_def addcommand_space fresh_bot_def)
  show ?thesis
    using refused answered by simp
qed

text \<open>A viewer sends \<^verbatim>\<open>!addcommand foo bar\<close> in the channel and is sent nothing back.\<close>

theorem addcommand_denial_is_silent:
  "fst (event_message ''999'' fresh_bot (channel_message viewer ''addcommand'' ''foo bar''))
     = Inl GuardFailure
   \<and> chat (snd (event_message ''999'' fresh_bot (channel_message viewer ''addcommand'' ''foo bar'')))
     = []"
  by (simp add: event_message_def channel_message_def invoke_def get_command_def is_elevated_def
      viewer_def fresh_bot_def)

text \<open>
  C9, as the code has it. \<^verbatim>\<open>load_responses\<close> fetches every row of the responses
  table and leaves the table as it was stored: no record is added, dropped or
  altered. Nothing else changes either: the bot keeps no lookup table of
  responses in memory, so none is populated. No lookup of a stored command is
  served: what the bot answers to a message is the same whatever the responses
  table holds, and a \<^verbatim>\<open>!name\<close> that is not built in gets no reply after
  \<^verbatim>\<open>load_responses\<close>.
\<close>

theorem load_responses_changes_nothing:
  "responses_database (snd (load_responses b)) = responses_database b
   \<and> snd (load_responses b) = b
   \<and> fst (event_message BOT_ID (b\<lparr>responses_database := table\<rparr>) m) = fst (event_message BOT_ID b m)
   \<and> chat (snd (event_message BOT_ID (b\<lparr>responses_database := table\<rparr>) m))
       = chat (snd (event_message BOT_ID b m))
   \<and> (command_name m \<notin> set [''hi'', ''hello'', ''howdy'', ''hey'', ''socials'', ''addcommand''] \<longrightarrow>
        chat (snd (event_message BOT_ID (snd (load_responses b)) m)) = chat b)"
proof -
  have frame: "snd (load_responses b) = b"
    by (simp add: load_responses_def add_response_rows_raises)
  have same: "fst (event_message BOT_ID (b\<lparr>responses_database := table\<rparr>) m)
        = fst (event_message BOT_ID b m)
      \<and> chat (snd (event_message BOT_ID (b\<lparr>responses_database := table\<rparr>) m))
        = chat (snd (event_message BOT_ID b m))"
    using invoke_ignores_responses
      [where b = b and table = table and who = "from_chatter m" and name = "command_name m"
         and rest = "remainder m"]
    by (simp add: event_message_def)
  have silent: "chat (snd (event_message BOT_ID b m)) = chat b"
    if "command_name m \<notin> set [''hi'', ''hello'', ''howdy'', ''hey'', ''socials'', ''addcommand'']"
    using invoke_other [OF that] by (simp add: event_message_def)
  show ?thesis
    using same silent by (simp add: frame)
qed

theorem load_responses_changes_nothing_witness:
  "chat (snd (event_message ''999''
        (snd (load_responses (fresh_bot\<lparr>responses_database := [(''foo'', ''bar'')]\<rparr>)))
        (channel_message viewer ''foo'' []))) = []
   \<and> responses_database (snd (load_responses (fresh_bot\<lparr>responses_database := [(''foo'', ''bar'')]\<rparr>)))
       = [(''foo'', ''bar'')]"
proof -
  let ?b = "fresh_bot\<lparr>responses_database := [(''foo'', ''bar'')]\<rparr>"
  have dynamic: "command_name (channel_message viewer ''foo'' [])
      \<notin> set [''hi'', ''hello'', ''howdy'', ''hey'', ''socials'', ''addcommand'']"
    by (simp add: channel_message_def)
  note unchanged = load_responses_changes_nothing
    [where b = ?b and BOT_ID = "''999''" and table = "[]"
       and m = "channel_message viewer ''foo'' []"]
  have silent: "chat (snd (event_message ''999'' (snd (load_responses ?b))
        (channel_message viewer ''foo'' []))) = chat ?b"
    using unchanged [THEN conjunct2, THEN conjunct2, THEN conjunct2, THEN conjunct2] dynamic
    by (rule mp)
  have kept: "responses_database (snd (load_responses ?b)) = responses_database ?b"
    using unchanged by (rule conjunct1)
  show ?thesis
    using silent kept by (simp add: fresh_bot_def)
qed

text \<open>
  One stored command \<open>foo\<close>: \<^verbatim>\<open>load_responses\<close> raises at it and leaves the whole
  state as it was, and a later \<^verbatim>\<open>!foo\<close> gets no answer.
\<close>

theorem load_responses_populates_nothing:
  "load_responses (fresh_bot\<lparr>responses_database := [(''foo'', ''bar'')]\<rparr>)
     = (Inl ProgrammingError, fresh_bot\<lparr>responses_database := [(''foo'', ''bar'')]\<rparr>)
   \<and> chat (snd (event_message ''999''
        (snd (load_responses (fresh_bot\<lparr>responses_database := [(''foo'', ''bar'')]\<rparr>)))
        (channel_message viewer ''foo'' []))) = []"
  by (simp add: load_responses_def add_response_rows_raises event_message_def channel_message_def
      viewer_def invoke_def get_command_def fresh_bot_def)

end
